theory Spec2Isabelle
  imports Main "HOL-Library.Sublist"
begin

section \<open>The runtime environment read by the resolver\<close>

text \<open>
  \<^verbatim>\<open>src/utils/websocketClient.ts\<close> probes two globals: \<^verbatim>\<open>window\<close> (present in a
  browser, absent during server-side rendering) and \<^verbatim>\<open>globalThis.process\<close>, whose
  \<^verbatim>\<open>env\<close> object may carry \<^verbatim>\<open>SERVER_BASE_URL\<close>. Every link of the chain
  \<^verbatim>\<open>process?.env?.SERVER_BASE_URL\<close> may be undefined, so each is an \<open>option\<close>.
  Of \<^verbatim>\<open>window.location\<close> the code reads the three string properties
  \<^verbatim>\<open>protocol\<close>, \<^verbatim>\<open>host\<close> and \<^verbatim>\<open>hostname\<close>, each on its own; the model keeps
  them as three independent strings, as the code does. Strings are \<open>char list\<close>.
\<close>

record env_vars =
  SERVER_BASE_URL :: "string option"

record node_process =
  env :: "env_vars option"

record page_location =
  protocol :: string
  host :: string
  hostname :: string

record browser_window =
  location :: page_location

record global_this =
  window :: "browser_window option"
  process :: "node_process option"

section \<open>Endpoint resolution\<close>

definition DEFAULT_SERVER_BASE_URL :: string where
  "DEFAULT_SERVER_BASE_URL = ''http://localhost:8001''"

text \<open>
  \<^verbatim>\<open>a || b\<close> on an optional string \<^verbatim>\<open>a\<close>: the left operand is falsy when it is
  undefined or the empty string, and then the right operand is the value.
\<close>

definition js_or :: "string option \<Rightarrow> string \<Rightarrow> string" where
  "js_or a b = (case a of None \<Rightarrow> b | Some s \<Rightarrow> if s = [] then b else s)"

text \<open>
  \<^verbatim>\<open>const env = globalThis.process?.env; return env?.SERVER_BASE_URL || DEFAULT_SERVER_BASE_URL;\<close>
  Optional chaining is \<open>Option.bind\<close>.
\<close>

definition getServerBaseUrl :: "global_this \<Rightarrow> string" where
  "getServerBaseUrl g =
     (let env' = Option.bind (process g) env
      in js_or (Option.bind env' SERVER_BASE_URL) DEFAULT_SERVER_BASE_URL)"

text \<open>
  \<^verbatim>\<open>s.replace(/^lit/, rep)\<close> for a pattern that is a literal anchored at the start of
  the input and a replacement without \<^verbatim>\<open>$\<close>: when the input starts with the literal,
  that occurrence is replaced; otherwise the input is returned as it is.
\<close>

definition replace_at_start :: "string \<Rightarrow> string \<Rightarrow> string \<Rightarrow> string" where
  "replace_at_start lit rep s = (if prefix lit s then rep @ drop (length lit) s else s)"

text \<open>\<^verbatim>\<open>baseUrl.replace(/^https:/, 'wss:').replace(/^http:/, 'ws:')\<close>\<close>

definition toWebSocketBaseUrl :: "string \<Rightarrow> string" where
  "toWebSocketBaseUrl baseUrl =
     replace_at_start ''http:'' ''ws:'' (replace_at_start ''https:'' ''wss:'' baseUrl)"

definition isLoopbackHost :: "string \<Rightarrow> bool" where
  "isLoopbackHost h \<longleftrightarrow> h = ''localhost'' \<or> h = ''127.0.0.1'' \<or> h = ''::1''"

text \<open>
  \<^verbatim>\<open>typeof window !== 'undefined'\<close> is \<open>window g \<noteq> None\<close>. The two local constants of the
  browser branch are computed before the loopback test, as in the source.
\<close>

definition getWebSocketUrl :: "global_this \<Rightarrow> string" where
  "getWebSocketUrl g =
     (case window g of
        Some w \<Rightarrow>
          (let protocol' = (if protocol (location w) = ''https:'' then ''wss:'' else ''ws:'');
               host' = host (location w)
           in if isLoopbackHost (hostname (location w))
              then (let wsBaseUrl = toWebSocketBaseUrl (getServerBaseUrl g)
                    in wsBaseUrl @ ''/ws/chat'')
              else protocol' @ ''//'' @ host' @ ''/ws/chat'')
      | None \<Rightarrow>
          (let wsBaseUrl = toWebSocketBaseUrl (getServerBaseUrl g)
           in wsBaseUrl @ ''/ws/chat''))"

section \<open>Requests\<close>

text \<open>
  The interfaces \<^verbatim>\<open>ChatMessage\<close> and \<^verbatim>\<open>ChatCompletionRequest\<close>. A property
  marked \<^verbatim>\<open>?\<close> may be missing, so it is an \<open>option\<close>.
\<close>

datatype chat_role = User | Assistant | System

record chat_message =
  role :: chat_role
  content :: string

record chat_completion_request =
  repo_url :: string
  messages :: "chat_message list"
  filePath :: "string option"
  token :: "string option"
  type :: "string option"
  provider :: "string option"
  model :: "string option"
  language :: "string option"
  excluded_dirs :: "string option"
  excluded_files :: "string option"

section \<open>The socket and what a handler does\<close>

text \<open>
  A handler of the source is a closure run by the runtime when an event arrives. Its model
  is the list of actions it performs, in program order: a line on the console, a frame
  handed to \<^verbatim>\<open>ws.send\<close>, a call of \<^verbatim>\<open>ws.close\<close>, or whatever a callback of the
  caller does. The caller's callbacks are parameters, as in the source: a callback maps its
  argument to the caller's own actions (type \<open>'c\<close>), which the handler passes on under the
  tag \<open>Caller\<close>. The type \<open>'ev\<close> is the runtime's error \<^verbatim>\<open>Event\<close>.
\<close>

datatype js_error = TypeError | SyntaxError

datatype ready_state = CONNECTING | OPEN | CLOSING | CLOSED

record message_event =
  data :: string

datatype ('ev, 'c) action =
    ConsoleLog string
  | ConsoleError string 'ev
  | WsSend string
  | WsClose
  | Caller 'c

record ('ev, 'c) websocket =
  url :: string
  readyState :: ready_state
  onopen :: "('ev, 'c) action list"
  onmessage :: "message_event \<Rightarrow> ('ev, 'c) action list"
  onerror :: "'ev \<Rightarrow> ('ev, 'c) action list"
  onclose :: "('ev, 'c) action list"

text \<open>
  \<^verbatim>\<open>new WebSocket(url)\<close> is the runtime's constructor, not code of this file. It rejects
  some URLs with a \<^verbatim>\<open>SyntaxError\<close>; which ones is left to the parameter
  \<open>url_accepted\<close>. A fresh socket is connecting and has no handler installed.
\<close>

definition new_WebSocket :: "(string \<Rightarrow> bool) \<Rightarrow> string \<Rightarrow> js_error + ('ev, 'c) websocket" where
  "new_WebSocket url_accepted u =
     (if url_accepted u
      then Inr \<lparr>url = u, readyState = CONNECTING, onopen = [], onmessage = (\<lambda>_. []),
                onerror = (\<lambda>_. []), onclose = []\<rparr>
      else Inl SyntaxError)"

text \<open>
  \<^verbatim>\<open>createChatWebSocket(request, onMessage, onError, onClose)\<close>. The global
  \<^verbatim>\<open>JSON.stringify\<close> and the constructor's URL check belong to the runtime and are
  the first two parameters; the third is the global object read by \<open>getWebSocketUrl\<close>.
\<close>

definition createChatWebSocket ::
  "(chat_completion_request \<Rightarrow> string) \<Rightarrow> (string \<Rightarrow> bool) \<Rightarrow> global_this \<Rightarrow>
   chat_completion_request \<Rightarrow> (string \<Rightarrow> 'c list) \<Rightarrow> ('ev \<Rightarrow> 'c list) \<Rightarrow> 'c list \<Rightarrow>
   js_error + ('ev, 'c) websocket" where
  "createChatWebSocket JSON_stringify url_accepted g request onMessage onError onClose =
     (case new_WebSocket url_accepted (getWebSocketUrl g) of
        Inl e \<Rightarrow> Inl e
      | Inr ws \<Rightarrow>
          Inr (ws\<lparr>onopen := [ConsoleLog ''WebSocket connection established'',
                              WsSend (JSON_stringify request)],
                   onmessage := (\<lambda>event. map Caller (onMessage (data event))),
                   onerror := (\<lambda>error. ConsoleError ''WebSocket error:'' error
                                          # map Caller (onError error)),
                   onclose := ConsoleLog ''WebSocket connection closed''
                                # map Caller onClose\<rparr>))"

text \<open>
  The runtime delivers the socket's events one at a time; delivering an event runs the
  handler installed for it. The actions of a sequence of events are the handlers' actions,
  in delivery order.
\<close>

datatype 'ev ws_event = OpenEvent | MessageEvent message_event | ErrorEvent 'ev | CloseEvent

fun dispatchEvent :: "('ev, 'c) websocket \<Rightarrow> 'ev ws_event \<Rightarrow> ('ev, 'c) action list" where
  "dispatchEvent ws OpenEvent = onopen ws"
| "dispatchEvent ws (MessageEvent m) = onmessage ws m"
| "dispatchEvent ws (ErrorEvent e) = onerror ws e"
| "dispatchEvent ws CloseEvent = onclose ws"

definition deliver :: "('ev, 'c) websocket \<Rightarrow> 'ev ws_event list \<Rightarrow> ('ev, 'c) action list" where
  "deliver ws evs = concat (map (dispatchEvent ws) evs)"

text \<open>The frames a list of actions puts on the wire, and what it makes the caller do.\<close>

fun outbound :: "('ev, 'c) action list \<Rightarrow> string list" where
  "outbound [] = []"
| "outbound (WsSend t # as) = t # outbound as"
| "outbound (_ # as) = outbound as"

fun caller_actions :: "('ev, 'c) action list \<Rightarrow> 'c list" where
  "caller_actions [] = []"
| "caller_actions (Caller c # as) = c # caller_actions as"
| "caller_actions (_ # as) = caller_actions as"

text \<open>
  \<^verbatim>\<open>closeWebSocket(ws)\<close> with \<^verbatim>\<open>ws: WebSocket | null\<close>. Reading a property of
  \<^verbatim>\<open>null\<close> or calling a method on it throws a \<^verbatim>\<open>TypeError\<close>, so the two member
  accesses are fallible on an absent handle. In
  \<^verbatim>\<open>if (ws && ws.readyState === WebSocket.OPEN) ws.close()\<close> the operator \<^verbatim>\<open>&&\<close> does
  not evaluate its right operand when \<^verbatim>\<open>ws\<close> is \<^verbatim>\<open>null\<close>. The result is the list of
  actions performed, or the error thrown.
\<close>

definition readyState_of :: "('ev, 'c) websocket option \<Rightarrow> js_error + ready_state" where
  "readyState_of ws = (case ws of None \<Rightarrow> Inl TypeError | Some h \<Rightarrow> Inr (readyState h))"

definition ws_close :: "('ev, 'c) websocket option \<Rightarrow> js_error + ('ev, 'c) action list" where
  "ws_close ws = (case ws of None \<Rightarrow> Inl TypeError | Some h \<Rightarrow> Inr [WsClose])"

definition closeWebSocket :: "('ev, 'c) websocket option \<Rightarrow> js_error + ('ev, 'c) action list" where
  "closeWebSocket ws =
     (case ws of
        None \<Rightarrow> Inr []
      | Some _ \<Rightarrow>
          (case readyState_of ws of
             Inl e \<Rightarrow> Inl e
           | Inr s \<Rightarrow> if s = OPEN then ws_close ws else Inr []))"

section \<open>Properties of endpoint resolution\<close>

lemma getWebSocketUrl_server:
  "window g = None \<Longrightarrow>
   getWebSocketUrl g = toWebSocketBaseUrl (getServerBaseUrl g) @ ''/ws/chat''"
  by (simp add: getWebSocketUrl_def)

lemma getWebSocketUrl_loopback:
  "window g = Some w \<Longrightarrow> isLoopbackHost (hostname (location w)) \<Longrightarrow>
   getWebSocketUrl g = toWebSocketBaseUrl (getServerBaseUrl g) @ ''/ws/chat''"
  by (simp add: getWebSocketUrl_def)

lemma getWebSocketUrl_page:
  "window g = Some w \<Longrightarrow> \<not> isLoopbackHost (hostname (location w)) \<Longrightarrow>
   getWebSocketUrl g =
     (if protocol (location w) = ''https:'' then ''wss:'' else ''ws:'')
       @ ''//'' @ host (location w) @ ''/ws/chat''"
  by (simp add: getWebSocketUrl_def)

text \<open>
  Claim C8. In every execution context (browser on a loopback host, browser on any other
  host, server side) and for every configuration, the resolved URL ends with
  \<^verbatim>\<open>/ws/chat\<close>.
\<close>

theorem getWebSocketUrl_suffix: "suffix ''/ws/chat'' (getWebSocketUrl g)"
proof (cases "window g")
  case None
  then have "getWebSocketUrl g = toWebSocketBaseUrl (getServerBaseUrl g) @ ''/ws/chat''"
    by (rule getWebSocketUrl_server)
  then show ?thesis by (simp add: suffix_def)
next
  case (Some w)
  show ?thesis
  proof (cases "isLoopbackHost (hostname (location w))")
    case True
    with Some have "getWebSocketUrl g = toWebSocketBaseUrl (getServerBaseUrl g) @ ''/ws/chat''"
      by (rule getWebSocketUrl_loopback)
    then show ?thesis by (simp add: suffix_def)
  next
    case False
    with Some have "getWebSocketUrl g =
        ((if protocol (location w) = ''https:'' then ''wss:'' else ''ws:'')
          @ ''//'' @ host (location w)) @ ''/ws/chat''"
      by (simp add: getWebSocketUrl_page)
    then show ?thesis unfolding suffix_def by blast
  qed
qed

theorem getWebSocketUrl_suffix_witness:
  "suffix ''/ws/chat'' (getWebSocketUrl \<lparr>window = None, process = None\<rparr>)"
  by (rule getWebSocketUrl_suffix)

text \<open>
  Claim C1. In a browser whose page hostname is not a loopback host, the resolver returns
  scheme, \<^verbatim>\<open>//\<close>, the page's \<^verbatim>\<open>location.host\<close> (the property that carries the port)
  and \<^verbatim>\<open>/ws/chat\<close>, where the scheme is \<^verbatim>\<open>wss:\<close> for the page protocol
  \<^verbatim>\<open>https:\<close> and \<^verbatim>\<open>ws:\<close> for every other protocol.
\<close>

theorem getWebSocketUrl_non_loopback:
  assumes "window g = Some w"
    and "\<not> isLoopbackHost (hostname (location w))"
  shows "getWebSocketUrl g =
     (if protocol (location w) = ''https:'' then ''wss:'' else ''ws:'')
       @ ''//'' @ host (location w) @ ''/ws/chat''"
  using assms by (simp add: getWebSocketUrl_def)

theorem getWebSocketUrl_non_loopback_witness:
  "getWebSocketUrl
     \<lparr>window = Some \<lparr>location = \<lparr>protocol = ''https:'', host = ''wiki.example.com:8443'',
                                   hostname = ''wiki.example.com''\<rparr>\<rparr>,
      process = None\<rparr>
   = ''wss://wiki.example.com:8443/ws/chat''"
proof -
  let ?w = "\<lparr>location = \<lparr>protocol = ''https:'', host = ''wiki.example.com:8443'',
                            hostname = ''wiki.example.com''\<rparr>\<rparr>"
  have n: "\<not> isLoopbackHost (hostname (location ?w))"
    by (simp add: isLoopbackHost_def)
  show ?thesis
    using getWebSocketUrl_non_loopback [of "\<lparr>window = Some ?w, process = None\<rparr>" ?w, OF _ n]
    by simp
qed

text \<open>
  Claim C2. The claim reads: on a loopback page the resolver ignores the page's host and
  port and returns the configured base URL, rewritten to a WebSocket scheme, followed by
  \<^verbatim>\<open>/ws/chat\<close>. The first half holds. The rewrite, however, only touches a base URL
  that starts with \<^verbatim>\<open>https:\<close> or \<^verbatim>\<open>http:\<close>: on a \<^verbatim>\<open>localhost\<close> page with
  \<^verbatim>\<open>SERVER_BASE_URL\<close> set to \<^verbatim>\<open>ftp://files.example.com\<close> the resolver returns
  \<^verbatim>\<open>ftp://files.example.com/ws/chat\<close>, which has neither the scheme \<^verbatim>\<open>ws\<close> nor
  \<^verbatim>\<open>wss\<close>.
\<close>

theorem getWebSocketUrl_loopback_ftp_counterexample:
  "isLoopbackHost ''localhost'' \<and>
   getWebSocketUrl
     \<lparr>window = Some \<lparr>location = \<lparr>protocol = ''http:'', host = ''localhost:3000'',
                                   hostname = ''localhost''\<rparr>\<rparr>,
      process = Some \<lparr>env = Some \<lparr>SERVER_BASE_URL = Some ''ftp://files.example.com''\<rparr>\<rparr>\<rparr>
     = ''ftp://files.example.com/ws/chat'' \<and>
   \<not> prefix ''ws:''
     (getWebSocketUrl
       \<lparr>window = Some \<lparr>location = \<lparr>protocol = ''http:'', host = ''localhost:3000'',
                                     hostname = ''localhost''\<rparr>\<rparr>,
        process = Some \<lparr>env = Some \<lparr>SERVER_BASE_URL = Some ''ftp://files.example.com''\<rparr>\<rparr>\<rparr>) \<and>
   \<not> prefix ''wss:''
     (getWebSocketUrl
       \<lparr>window = Some \<lparr>location = \<lparr>protocol = ''http:'', host = ''localhost:3000'',
                                     hostname = ''localhost''\<rparr>\<rparr>,
        process = Some \<lparr>env = Some \<lparr>SERVER_BASE_URL = Some ''ftp://files.example.com''\<rparr>\<rparr>\<rparr>)"
  by (simp add: isLoopbackHost_def getWebSocketUrl_def getServerBaseUrl_def js_or_def
      toWebSocketBaseUrl_def replace_at_start_def)

text \<open>
  Claim C2, as the code has it. In a browser whose page hostname is \<^verbatim>\<open>localhost\<close>,
  \<^verbatim>\<open>127.0.0.1\<close> or \<^verbatim>\<open>::1\<close>, the resolver returns the configured base URL, passed
  through the scheme rewrite, followed by \<^verbatim>\<open>/ws/chat\<close>: a base URL
  \<^verbatim>\<open>https:\<close>\<open>rest\<close> gives \<^verbatim>\<open>wss:\<close>\<open>rest\<close>\<^verbatim>\<open>/ws/chat\<close>, a base URL
  \<^verbatim>\<open>http:\<close>\<open>rest\<close> gives \<^verbatim>\<open>ws:\<close>\<open>rest\<close>\<^verbatim>\<open>/ws/chat\<close>, and a base URL that
  starts with neither is used as it is. The base URL depends on \<^verbatim>\<open>process\<close> alone, and
  the page's host (with its port) and protocol have no influence on the result.
\<close>

theorem getWebSocketUrl_loopback_ignores_page:
  assumes "window g = Some w"
    and "hostname (location w) \<in> {''localhost'', ''127.0.0.1'', ''::1''}"
  shows "getWebSocketUrl g = toWebSocketBaseUrl (getServerBaseUrl g) @ ''/ws/chat'' \<and>
     (\<forall>rest. getServerBaseUrl g = ''https:'' @ rest \<longrightarrow>
        getWebSocketUrl g = ''wss:'' @ rest @ ''/ws/chat'') \<and>
     (\<forall>rest. getServerBaseUrl g = ''http:'' @ rest \<longrightarrow>
        getWebSocketUrl g = ''ws:'' @ rest @ ''/ws/chat'') \<and>
     (\<not> prefix ''https:'' (getServerBaseUrl g) \<and> \<not> prefix ''http:'' (getServerBaseUrl g) \<longrightarrow>
        getWebSocketUrl g = getServerBaseUrl g @ ''/ws/chat'') \<and>
     getServerBaseUrl g = getServerBaseUrl \<lparr>window = None, process = process g\<rparr> \<and>
     getWebSocketUrl
       (g\<lparr>window := Some (w\<lparr>location := (location w)\<lparr>protocol := p', host := h'\<rparr>\<rparr>)\<rparr>)
       = getWebSocketUrl g"
proof -
  from assms(2) have l: "isLoopbackHost (hostname (location w))"
    by (auto simp add: isLoopbackHost_def)
  with assms(1)
  have r: "getWebSocketUrl g = toWebSocketBaseUrl (getServerBaseUrl g) @ ''/ws/chat''"
    by (simp add: getWebSocketUrl_def)
  have s: "getWebSocketUrl g = ''wss:'' @ rest @ ''/ws/chat''"
    if "getServerBaseUrl g = ''https:'' @ rest" for rest
    using r that by (simp add: toWebSocketBaseUrl_def replace_at_start_def)
  have p: "getWebSocketUrl g = ''ws:'' @ rest @ ''/ws/chat''"
    if "getServerBaseUrl g = ''http:'' @ rest" for rest
    using r that by (simp add: toWebSocketBaseUrl_def replace_at_start_def)
  have n: "getWebSocketUrl g = getServerBaseUrl g @ ''/ws/chat''"
    if "\<not> prefix ''https:'' (getServerBaseUrl g) \<and> \<not> prefix ''http:'' (getServerBaseUrl g)"
    using r that by (simp add: toWebSocketBaseUrl_def replace_at_start_def)
  have b: "getServerBaseUrl g = getServerBaseUrl \<lparr>window = None, process = process g\<rparr>"
    by (simp add: getServerBaseUrl_def)
  have i: "getWebSocketUrl
       (g\<lparr>window := Some (w\<lparr>location := (location w)\<lparr>protocol := p', host := h'\<rparr>\<rparr>)\<rparr>)
       = getWebSocketUrl g"
    using assms(1) l by (simp add: getWebSocketUrl_def getServerBaseUrl_def)
  from r s p n b i show ?thesis by blast
qed

theorem getWebSocketUrl_loopback_ignores_page_witness:
  "getWebSocketUrl
     \<lparr>window = Some \<lparr>location = \<lparr>protocol = ''https:'', host = ''localhost:3000'',
                                   hostname = ''localhost''\<rparr>\<rparr>,
      process = Some \<lparr>env = Some \<lparr>SERVER_BASE_URL = Some ''http://backend.test:9000''\<rparr>\<rparr>\<rparr>
     = ''ws://backend.test:9000/ws/chat'' \<and>
   getWebSocketUrl
     \<lparr>window = Some \<lparr>location = \<lparr>protocol = ''http:'', host = ''127.0.0.1:3000'',
                                   hostname = ''127.0.0.1''\<rparr>\<rparr>,
      process = Some \<lparr>env = Some \<lparr>SERVER_BASE_URL = Some ''https://api.example.com''\<rparr>\<rparr>\<rparr>
     = ''wss://api.example.com/ws/chat'' \<and>
   getWebSocketUrl
     \<lparr>window = Some \<lparr>location = \<lparr>protocol = ''http:'', host = ''[::1]:3000'',
                                   hostname = ''::1''\<rparr>\<rparr>,
      process = Some \<lparr>env = Some \<lparr>SERVER_BASE_URL = Some ''backend.test:9000''\<rparr>\<rparr>\<rparr>
     = ''backend.test:9000/ws/chat''"
proof -
  let ?w1 = "\<lparr>location = \<lparr>protocol = ''https:'', host = ''localhost:3000'',
                             hostname = ''localhost''\<rparr>\<rparr>"
  let ?g1 = "\<lparr>window = Some ?w1,
              process = Some \<lparr>env = Some \<lparr>SERVER_BASE_URL = Some ''http://backend.test:9000''\<rparr>\<rparr>\<rparr>"
  let ?w2 = "\<lparr>location = \<lparr>protocol = ''http:'', host = ''127.0.0.1:3000'',
                             hostname = ''127.0.0.1''\<rparr>\<rparr>"
  let ?g2 = "\<lparr>window = Some ?w2,
              process = Some \<lparr>env = Some \<lparr>SERVER_BASE_URL = Some ''https://api.example.com''\<rparr>\<rparr>\<rparr>"
  let ?w3 = "\<lparr>location = \<lparr>protocol = ''http:'', host = ''[::1]:3000'',
                             hostname = ''::1''\<rparr>\<rparr>"
  let ?g3 = "\<lparr>window = Some ?w3,
              process = Some \<lparr>env = Some \<lparr>SERVER_BASE_URL = Some ''backend.test:9000''\<rparr>\<rparr>\<rparr>"
  have b1: "getServerBaseUrl ?g1 = ''http:'' @ ''//backend.test:9000''"
    by (simp add: getServerBaseUrl_def js_or_def)
  have b2: "getServerBaseUrl ?g2 = ''https:'' @ ''//api.example.com''"
    by (simp add: getServerBaseUrl_def js_or_def)
  have b3: "\<not> prefix ''https:'' (getServerBaseUrl ?g3) \<and> \<not> prefix ''http:'' (getServerBaseUrl ?g3)"
    and c3: "getServerBaseUrl ?g3 = ''backend.test:9000''"
    by (simp_all add: getServerBaseUrl_def js_or_def)
  have w1: "window ?g1 = Some ?w1" and w2: "window ?g2 = Some ?w2"
    and w3: "window ?g3 = Some ?w3"
    by simp_all
  have l1: "hostname (location ?w1) \<in> {''localhost'', ''127.0.0.1'', ''::1''}"
    and l2: "hostname (location ?w2) \<in> {''localhost'', ''127.0.0.1'', ''::1''}"
    and l3: "hostname (location ?w3) \<in> {''localhost'', ''127.0.0.1'', ''::1''}"
    by simp_all
  have "getWebSocketUrl ?g1 = ''ws:'' @ ''//backend.test:9000'' @ ''/ws/chat''"
    using getWebSocketUrl_loopback_ignores_page [OF w1 l1] b1 by blast
  moreover have "getWebSocketUrl ?g2 = ''wss:'' @ ''//api.example.com'' @ ''/ws/chat''"
    using getWebSocketUrl_loopback_ignores_page [OF w2 l2] b2 by blast
  moreover have "getWebSocketUrl ?g3 = getServerBaseUrl ?g3 @ ''/ws/chat''"
    using getWebSocketUrl_loopback_ignores_page [OF w3 l3] b3 by blast
  ultimately show ?thesis by (simp add: c3)
qed

section \<open>Properties of the scheme rewrite and of the configuration lookup\<close>

lemma toWebSocketBaseUrl_https: "toWebSocketBaseUrl (''https:'' @ rest) = ''wss:'' @ rest"
  by (simp add: toWebSocketBaseUrl_def replace_at_start_def)

lemma toWebSocketBaseUrl_http: "toWebSocketBaseUrl (''http:'' @ rest) = ''ws:'' @ rest"
  by (simp add: toWebSocketBaseUrl_def replace_at_start_def)

lemma toWebSocketBaseUrl_other:
  "\<not> prefix ''https:'' b \<Longrightarrow> \<not> prefix ''http:'' b \<Longrightarrow> toWebSocketBaseUrl b = b"
  by (simp add: toWebSocketBaseUrl_def replace_at_start_def)

text \<open>
  Claim C3. The claim reads: for every base URL the rewritten scheme is \<^verbatim>\<open>wss\<close> when
  the original scheme is \<^verbatim>\<open>https\<close> and \<^verbatim>\<open>ws\<close> otherwise. The rewrite consists of
  two anchored replacements, one for \<^verbatim>\<open>https:\<close> and one for \<^verbatim>\<open>http:\<close>; a base URL
  that starts with neither is returned as it is. For \<^verbatim>\<open>ftp://files.example.com\<close> the
  original scheme is not \<^verbatim>\<open>https\<close>, yet the result does not have the scheme
  \<^verbatim>\<open>ws\<close>: it is the input, and the resolved URL is
  \<^verbatim>\<open>ftp://files.example.com/ws/chat\<close>.
\<close>

theorem toWebSocketBaseUrl_ftp_counterexample:
  "\<not> prefix ''https:'' ''ftp://files.example.com'' \<and>
   toWebSocketBaseUrl ''ftp://files.example.com'' = ''ftp://files.example.com'' \<and>
   \<not> prefix ''ws:'' (toWebSocketBaseUrl ''ftp://files.example.com'') \<and>
   getWebSocketUrl
     \<lparr>window = None,
      process = Some \<lparr>env = Some \<lparr>SERVER_BASE_URL = Some ''ftp://files.example.com''\<rparr>\<rparr>\<rparr>
     = ''ftp://files.example.com/ws/chat''"
  by (simp add: toWebSocketBaseUrl_def replace_at_start_def getWebSocketUrl_def
      getServerBaseUrl_def js_or_def)

text \<open>
  Claim C3, as the code has it. A base URL that starts with \<^verbatim>\<open>https:\<close> has that prefix
  replaced by \<^verbatim>\<open>wss:\<close>; one that starts with \<^verbatim>\<open>http:\<close> has it replaced by
  \<^verbatim>\<open>ws:\<close>; the rest of the string is kept; a base URL that starts with neither is
  returned unchanged. In particular, with \<^verbatim>\<open>SERVER_BASE_URL\<close> set to
  \<^verbatim>\<open>https://api.example.com\<close>, the resolver's server-side and loopback paths yield
  \<^verbatim>\<open>wss://api.example.com/ws/chat\<close>.
\<close>

theorem toWebSocketBaseUrl_rewrite:
  "toWebSocketBaseUrl (''https:'' @ rest) = ''wss:'' @ rest \<and>
   toWebSocketBaseUrl (''http:'' @ rest) = ''ws:'' @ rest \<and>
   (\<not> prefix ''https:'' b \<and> \<not> prefix ''http:'' b \<longrightarrow> toWebSocketBaseUrl b = b) \<and>
   (window g = None \<or> (\<exists>w. window g = Some w \<and> isLoopbackHost (hostname (location w))) \<longrightarrow>
    Option.bind (Option.bind (process g) env) SERVER_BASE_URL = Some ''https://api.example.com'' \<longrightarrow>
    getWebSocketUrl g = ''wss://api.example.com/ws/chat'')"
proof -
  have ex: "getWebSocketUrl g = ''wss://api.example.com/ws/chat''"
    if ctx: "window g = None \<or> (\<exists>w. window g = Some w \<and> isLoopbackHost (hostname (location w)))"
      and cfg: "Option.bind (Option.bind (process g) env) SERVER_BASE_URL
                  = Some ''https://api.example.com''"
  proof -
    from cfg have "getServerBaseUrl g = ''https:'' @ ''//api.example.com''"
      by (simp add: getServerBaseUrl_def js_or_def)
    then have "toWebSocketBaseUrl (getServerBaseUrl g) = ''wss:'' @ ''//api.example.com''"
      by (simp only: toWebSocketBaseUrl_https)
    moreover from ctx have "getWebSocketUrl g = toWebSocketBaseUrl (getServerBaseUrl g) @ ''/ws/chat''"
      by (auto simp: getWebSocketUrl_server getWebSocketUrl_loopback)
    ultimately show ?thesis by simp
  qed
  show ?thesis
  proof (intro conjI impI)
    show "toWebSocketBaseUrl (''https:'' @ rest) = ''wss:'' @ rest"
      by (rule toWebSocketBaseUrl_https)
    show "toWebSocketBaseUrl (''http:'' @ rest) = ''ws:'' @ rest"
      by (rule toWebSocketBaseUrl_http)
    show "toWebSocketBaseUrl b = b" if "\<not> prefix ''https:'' b \<and> \<not> prefix ''http:'' b"
      using that by (simp add: toWebSocketBaseUrl_other)
    show "getWebSocketUrl g = ''wss://api.example.com/ws/chat''"
      if "window g = None \<or> (\<exists>w. window g = Some w \<and> isLoopbackHost (hostname (location w)))"
        and "Option.bind (Option.bind (process g) env) SERVER_BASE_URL
               = Some ''https://api.example.com''"
      using that by (rule ex)
  qed
qed

theorem toWebSocketBaseUrl_rewrite_witness:
  "toWebSocketBaseUrl ''https://api.example.com'' = ''wss://api.example.com'' \<and>
   toWebSocketBaseUrl ''http://localhost:8001'' = ''ws://localhost:8001'' \<and>
   toWebSocketBaseUrl ''localhost:8001'' = ''localhost:8001'' \<and>
   getWebSocketUrl
     \<lparr>window = None,
      process = Some \<lparr>env = Some \<lparr>SERVER_BASE_URL = Some ''https://api.example.com''\<rparr>\<rparr>\<rparr>
     = ''wss://api.example.com/ws/chat''"
  using toWebSocketBaseUrl_rewrite [of "''//api.example.com''" "''localhost:8001''"
      "\<lparr>window = None,
        process = Some \<lparr>env = Some \<lparr>SERVER_BASE_URL = Some ''https://api.example.com''\<rparr>\<rparr>\<rparr>"]
    toWebSocketBaseUrl_rewrite [of "''//localhost:8001''" "''localhost:8001''"
      "\<lparr>window = None, process = None\<rparr>"]
  by simp

text \<open>
  Claim C4. When \<^verbatim>\<open>SERVER_BASE_URL\<close> is absent (no \<^verbatim>\<open>process\<close>, no \<^verbatim>\<open>env\<close>, or no
  such variable), the base URL is the default \<^verbatim>\<open>http://localhost:8001\<close>, and the
  resolver returns \<^verbatim>\<open>ws://localhost:8001/ws/chat\<close> both on the server side and in a
  browser on a loopback host.
\<close>

theorem getWebSocketUrl_default:
  assumes "Option.bind (Option.bind (process g) env) SERVER_BASE_URL = None"
    and "window g = None \<or> (\<exists>w. window g = Some w \<and> isLoopbackHost (hostname (location w)))"
  shows "getServerBaseUrl g = ''http://localhost:8001'' \<and>
     getWebSocketUrl g = ''ws://localhost:8001/ws/chat''"
proof -
  from assms(1) have b: "getServerBaseUrl g = ''http:'' @ ''//localhost:8001''"
    by (simp add: getServerBaseUrl_def js_or_def DEFAULT_SERVER_BASE_URL_def)
  then have "toWebSocketBaseUrl (getServerBaseUrl g) = ''ws:'' @ ''//localhost:8001''"
    by (simp only: toWebSocketBaseUrl_http)
  moreover from assms(2)
  have "getWebSocketUrl g = toWebSocketBaseUrl (getServerBaseUrl g) @ ''/ws/chat''"
    by (auto simp: getWebSocketUrl_server getWebSocketUrl_loopback)
  ultimately show ?thesis using b by simp
qed

theorem getWebSocketUrl_default_witness:
  "getWebSocketUrl \<lparr>window = None, process = None\<rparr> = ''ws://localhost:8001/ws/chat'' \<and>
   getWebSocketUrl \<lparr>window = None, process = Some \<lparr>env = None\<rparr>\<rparr>
     = ''ws://localhost:8001/ws/chat'' \<and>
   getWebSocketUrl
     \<lparr>window = Some \<lparr>location = \<lparr>protocol = ''https:'', host = ''127.0.0.1:3000'',
                                   hostname = ''127.0.0.1''\<rparr>\<rparr>,
      process = Some \<lparr>env = Some \<lparr>SERVER_BASE_URL = None\<rparr>\<rparr>\<rparr>
     = ''ws://localhost:8001/ws/chat''"
proof -
  let ?w = "\<lparr>location = \<lparr>protocol = ''https:'', host = ''127.0.0.1:3000'',
                            hostname = ''127.0.0.1''\<rparr>\<rparr>"
  let ?g = "\<lparr>window = Some ?w, process = Some \<lparr>env = Some \<lparr>SERVER_BASE_URL = None\<rparr>\<rparr>\<rparr>"
  have "\<exists>w. window ?g = Some w \<and> isLoopbackHost (hostname (location w))"
    by (simp add: isLoopbackHost_def)
  then have "getWebSocketUrl ?g = ''ws://localhost:8001/ws/chat''"
    using getWebSocketUrl_default [of ?g] by simp
  then show ?thesis
    using getWebSocketUrl_default [of "\<lparr>window = None, process = None\<rparr>"]
      getWebSocketUrl_default [of "\<lparr>window = None, process = Some \<lparr>env = None\<rparr>\<rparr>"]
    by simp
qed

text \<open>
  Claim C9. When \<^verbatim>\<open>SERVER_BASE_URL\<close> is present and is the empty string, the lookup
  returns the default \<^verbatim>\<open>http://localhost:8001\<close>, the same value as without a
  \<^verbatim>\<open>process\<close> object and as without the variable.
\<close>

theorem getServerBaseUrl_empty:
  assumes "Option.bind (Option.bind (process g) env) SERVER_BASE_URL = Some []"
  shows "getServerBaseUrl g = ''http://localhost:8001'' \<and>
     getServerBaseUrl g = getServerBaseUrl (g\<lparr>process := None\<rparr>) \<and>
     getServerBaseUrl g
       = getServerBaseUrl (g\<lparr>process := Some \<lparr>env = Some \<lparr>SERVER_BASE_URL = None\<rparr>\<rparr>\<rparr>)"
  using assms by (simp add: getServerBaseUrl_def js_or_def DEFAULT_SERVER_BASE_URL_def)

theorem getServerBaseUrl_empty_witness:
  "getServerBaseUrl
     \<lparr>window = None, process = Some \<lparr>env = Some \<lparr>SERVER_BASE_URL = Some ''''\<rparr>\<rparr>\<rparr>
     = ''http://localhost:8001'' \<and>
   getServerBaseUrl
     \<lparr>window = None, process = Some \<lparr>env = Some \<lparr>SERVER_BASE_URL = Some ''''\<rparr>\<rparr>\<rparr>
     = getServerBaseUrl \<lparr>window = None, process = None\<rparr>"
  using getServerBaseUrl_empty
    [of "\<lparr>window = None, process = Some \<lparr>env = Some \<lparr>SERVER_BASE_URL = Some ''''\<rparr>\<rparr>\<rparr>"]
  by (simp add: getServerBaseUrl_def js_or_def DEFAULT_SERVER_BASE_URL_def)

text \<open>
  Claim C10. The loopback test holds for exactly the three strings \<^verbatim>\<open>localhost\<close>,
  \<^verbatim>\<open>127.0.0.1\<close> and \<^verbatim>\<open>::1\<close>, compared character by character. It fails for
  \<^verbatim>\<open>LOCALHOST\<close>, \<^verbatim>\<open>127.0.0.2\<close> and \<^verbatim>\<open>[::1]\<close>, and a browser page on any
  hostname other than the three is resolved from the page's own protocol and host.
\<close>

theorem isLoopbackHost_exact:
  "(isLoopbackHost h \<longleftrightarrow> h \<in> {''localhost'', ''127.0.0.1'', ''::1''}) \<and>
   \<not> isLoopbackHost ''LOCALHOST'' \<and>
   \<not> isLoopbackHost ''127.0.0.2'' \<and>
   \<not> isLoopbackHost ''[::1]'' \<and>
   (h \<notin> {''localhost'', ''127.0.0.1'', ''::1''} \<longrightarrow>
    window g = Some w \<longrightarrow> hostname (location w) = h \<longrightarrow>
    getWebSocketUrl g =
      (if protocol (location w) = ''https:'' then ''wss:'' else ''ws:'')
        @ ''//'' @ host (location w) @ ''/ws/chat'')"
  by (auto simp add: isLoopbackHost_def getWebSocketUrl_def)

theorem isLoopbackHost_exact_witness:
  "\<not> isLoopbackHost ''LOCALHOST'' \<and>
   getWebSocketUrl
     \<lparr>window = Some \<lparr>location = \<lparr>protocol = ''http:'', host = ''LOCALHOST:3000'',
                                   hostname = ''LOCALHOST''\<rparr>\<rparr>,
      process = None\<rparr> = ''ws://LOCALHOST:3000/ws/chat'' \<and>
   getWebSocketUrl
     \<lparr>window = Some \<lparr>location = \<lparr>protocol = ''http:'', host = ''[::1]:3000'',
                                   hostname = ''[::1]''\<rparr>\<rparr>,
      process = None\<rparr> = ''ws://[::1]:3000/ws/chat'' \<and>
   getWebSocketUrl
     \<lparr>window = Some \<lparr>location = \<lparr>protocol = ''https:'', host = ''127.0.0.2'',
                                   hostname = ''127.0.0.2''\<rparr>\<rparr>,
      process = None\<rparr> = ''wss://127.0.0.2/ws/chat''"
  using isLoopbackHost_exact [of "''LOCALHOST''"
      "\<lparr>window = Some \<lparr>location = \<lparr>protocol = ''http:'', host = ''LOCALHOST:3000'',
                                     hostname = ''LOCALHOST''\<rparr>\<rparr>, process = None\<rparr>"
      "\<lparr>location = \<lparr>protocol = ''http:'', host = ''LOCALHOST:3000'', hostname = ''LOCALHOST''\<rparr>\<rparr>"]
    isLoopbackHost_exact [of "''[::1]''"
      "\<lparr>window = Some \<lparr>location = \<lparr>protocol = ''http:'', host = ''[::1]:3000'',
                                     hostname = ''[::1]''\<rparr>\<rparr>, process = None\<rparr>"
      "\<lparr>location = \<lparr>protocol = ''http:'', host = ''[::1]:3000'', hostname = ''[::1]''\<rparr>\<rparr>"]
    isLoopbackHost_exact [of "''127.0.0.2''"
      "\<lparr>window = Some \<lparr>location = \<lparr>protocol = ''https:'', host = ''127.0.0.2'',
                                     hostname = ''127.0.0.2''\<rparr>\<rparr>, process = None\<rparr>"
      "\<lparr>location = \<lparr>protocol = ''https:'', host = ''127.0.0.2'', hostname = ''127.0.0.2''\<rparr>\<rparr>"]
  by simp

section \<open>Properties of the connection opener and closer\<close>

lemma outbound_append: "outbound (as @ bs) = outbound as @ outbound bs"
  by (induction as rule: outbound.induct) simp_all

lemma outbound_Caller: "outbound (map Caller cs) = []"
  by (induction cs) simp_all

lemma caller_actions_append:
  "caller_actions (as @ bs) = caller_actions as @ caller_actions bs"
  by (induction as rule: caller_actions.induct) simp_all

lemma caller_actions_Caller: "caller_actions (map Caller cs) = cs"
  by (induction cs) simp_all

lemma deliver_Nil: "deliver ws [] = []"
  by (simp add: deliver_def)

lemma deliver_Cons: "deliver ws (e # evs) = dispatchEvent ws e @ deliver ws evs"
  by (simp add: deliver_def)

lemma createChatWebSocket_handlers:
  assumes "createChatWebSocket JSON_stringify url_accepted g request onMessage onError onClose
             = Inr ws"
  shows "onopen ws = [ConsoleLog ''WebSocket connection established'',
                      WsSend (JSON_stringify request)]"
    and "onmessage ws = (\<lambda>event. map Caller (onMessage (data event)))"
    and "onerror ws = (\<lambda>error. ConsoleError ''WebSocket error:'' error
                                   # map Caller (onError error))"
    and "onclose ws = ConsoleLog ''WebSocket connection closed'' # map Caller onClose"
    and "url ws = getWebSocketUrl g"
    and "readyState ws = CONNECTING"
  using assms
  by (auto simp add: createChatWebSocket_def new_WebSocket_def split: if_splits)

lemma outbound_dispatchEvent:
  assumes "createChatWebSocket JSON_stringify url_accepted g request onMessage onError onClose
             = Inr ws"
  shows "outbound (dispatchEvent ws e) = (if e = OpenEvent then [JSON_stringify request] else [])"
  using createChatWebSocket_handlers [OF assms]
  by (cases e) (simp_all add: outbound_Caller)

lemma caller_actions_dispatchEvent:
  assumes "createChatWebSocket JSON_stringify url_accepted g request onMessage onError onClose
             = Inr ws"
  shows "caller_actions (dispatchEvent ws e) =
     (case e of OpenEvent \<Rightarrow> [] | MessageEvent m \<Rightarrow> onMessage (data m)
      | ErrorEvent x \<Rightarrow> onError x | CloseEvent \<Rightarrow> onClose)"
  using createChatWebSocket_handlers [OF assms]
  by (cases e) (simp_all add: caller_actions_Caller)

text \<open>
  Claim C5. On a socket returned by \<open>createChatWebSocket\<close>, the open event puts exactly
  one frame on the wire, and its text is \<^verbatim>\<open>JSON.stringify\<close> applied to the request that
  was passed in, as it was passed in. No other event makes the component send anything:
  over any sequence of events the frames sent are one copy of that text per open event, so
  a socket that opens once sends exactly that one frame. (\<open>closeWebSocket\<close> sends no frame
  either: its only action is \<open>WsClose\<close>.)
\<close>

theorem createChatWebSocket_sends_request_once:
  assumes "createChatWebSocket JSON_stringify url_accepted g request onMessage onError onClose
             = Inr ws"
  shows "outbound (dispatchEvent ws OpenEvent) = [JSON_stringify request] \<and>
     (\<forall>e. e \<noteq> OpenEvent \<longrightarrow> outbound (dispatchEvent ws e) = []) \<and>
     outbound (deliver ws evs) = replicate (count_list evs OpenEvent) (JSON_stringify request) \<and>
     (count_list evs OpenEvent = 1 \<longrightarrow> outbound (deliver ws evs) = [JSON_stringify request])"
proof -
  note d = outbound_dispatchEvent [OF assms]
  have all: "outbound (deliver ws evs)
      = replicate (count_list evs OpenEvent) (JSON_stringify request)"
  proof (induction evs)
    case Nil
    show ?case by (simp add: deliver_Nil)
  next
    case (Cons e evs)
    then show ?case by (simp add: deliver_Cons outbound_append d)
  qed
  have one: "outbound (deliver ws evs) = [JSON_stringify request]"
    if "count_list evs OpenEvent = 1"
    using all that by simp
  have opened: "outbound (dispatchEvent ws OpenEvent) = [JSON_stringify request]"
    by (simp only: d) simp
  have others: "\<forall>e. e \<noteq> OpenEvent \<longrightarrow> outbound (dispatchEvent ws e) = []"
    by (simp only: d) simp
  from opened others all one show ?thesis by blast
qed

theorem createChatWebSocket_sends_request_once_witness:
  "\<exists>ws. createChatWebSocket (\<lambda>r. ''{repo_url:'' @ repo_url r @ ''}'') (\<lambda>u. True)
           \<lparr>window = None, process = None\<rparr>
           \<lparr>repo_url = ''https://github.com/o/r'', messages = [], filePath = None,
            token = None, type = None, provider = None, model = None, language = None,
            excluded_dirs = None, excluded_files = None\<rparr>
           (\<lambda>t. [t]) (\<lambda>e::unit. []) [] = Inr ws \<and>
         url ws = ''ws://localhost:8001/ws/chat'' \<and>
         outbound (deliver ws [OpenEvent, MessageEvent \<lparr>data = ''foo''\<rparr>, CloseEvent])
           = [''{repo_url:https://github.com/o/r}'']"
proof -
  let ?J = "\<lambda>r. ''{repo_url:'' @ repo_url r @ ''}''"
  let ?g = "\<lparr>window = None, process = None\<rparr>"
  let ?r = "\<lparr>repo_url = ''https://github.com/o/r'', messages = [], filePath = None,
            token = None, type = None, provider = None, model = None, language = None,
            excluded_dirs = None, excluded_files = None\<rparr>"
  obtain ws :: "(unit, string) websocket"
    where ws: "createChatWebSocket ?J (\<lambda>u. True) ?g ?r (\<lambda>t. [t]) (\<lambda>e::unit. []) [] = Inr ws"
    by (simp add: createChatWebSocket_def new_WebSocket_def)
  have u: "url ws = ''ws://localhost:8001/ws/chat''"
    using ws
    by (auto simp add: createChatWebSocket_def new_WebSocket_def getWebSocketUrl_def
        getServerBaseUrl_def js_or_def DEFAULT_SERVER_BASE_URL_def toWebSocketBaseUrl_def
        replace_at_start_def)
  have "outbound (deliver ws [OpenEvent, MessageEvent \<lparr>data = ''foo''\<rparr>, CloseEvent])
          = [?J ?r]"
    using createChatWebSocket_sends_request_once
      [OF ws, of "[OpenEvent, MessageEvent \<lparr>data = ''foo''\<rparr>, CloseEvent]"]
    by simp
  with ws u show ?thesis by auto
qed

text \<open>
  Claim C6. On a socket returned by \<open>createChatWebSocket\<close>, delivering a message event
  does one thing: it calls \<^verbatim>\<open>onMessage\<close> with the event's \<^verbatim>\<open>data\<close>, unchanged. A
  sequence of inbound frames therefore yields the callback's actions frame by frame, in
  delivery order, and nothing else; in any sequence of events the caller sees one
  \<^verbatim>\<open>onMessage\<close> call per message event, in order. For the frames \<^verbatim>\<open>foo\<close> then
  \<^verbatim>\<open>bar\<close> the calls are \<^verbatim>\<open>onMessage("foo")\<close> then \<^verbatim>\<open>onMessage("bar")\<close>.
\<close>

theorem createChatWebSocket_forwards_messages:
  assumes "createChatWebSocket JSON_stringify url_accepted g request onMessage onError onClose
             = Inr ws"
  shows "dispatchEvent ws (MessageEvent m) = map Caller (onMessage (data m)) \<and>
     deliver ws (map MessageEvent ms)
       = map Caller (concat (map (\<lambda>m. onMessage (data m)) ms)) \<and>
     caller_actions (deliver ws evs)
       = concat (map (\<lambda>e. case e of OpenEvent \<Rightarrow> [] | MessageEvent m \<Rightarrow> onMessage (data m)
                          | ErrorEvent x \<Rightarrow> onError x | CloseEvent \<Rightarrow> onClose) evs) \<and>
     deliver ws [MessageEvent \<lparr>data = ''foo''\<rparr>, MessageEvent \<lparr>data = ''bar''\<rparr>]
       = map Caller (onMessage ''foo'' @ onMessage ''bar'')"
proof -
  note h = createChatWebSocket_handlers [OF assms]
  have one: "dispatchEvent ws (MessageEvent m) = map Caller (onMessage (data m))" for m
    by (simp add: h(2))
  have frames: "deliver ws (map MessageEvent ms)
      = map Caller (concat (map (\<lambda>m. onMessage (data m)) ms))" for ms
    by (induction ms) (simp_all add: deliver_Nil deliver_Cons h(2))
  have mixed: "caller_actions (deliver ws evs)
      = concat (map (\<lambda>e. case e of OpenEvent \<Rightarrow> [] | MessageEvent m \<Rightarrow> onMessage (data m)
                         | ErrorEvent x \<Rightarrow> onError x | CloseEvent \<Rightarrow> onClose) evs)"
    by (induction evs)
      (simp_all add: deliver_Nil deliver_Cons caller_actions_append
        caller_actions_dispatchEvent [OF assms])
  have two: "deliver ws [MessageEvent \<lparr>data = ''foo''\<rparr>, MessageEvent \<lparr>data = ''bar''\<rparr>]
      = map Caller (onMessage ''foo'' @ onMessage ''bar'')"
    using frames [of "[\<lparr>data = ''foo''\<rparr>, \<lparr>data = ''bar''\<rparr>]"] by simp
  from one frames mixed two show ?thesis by blast
qed

theorem createChatWebSocket_forwards_messages_witness:
  "\<exists>ws. createChatWebSocket (\<lambda>r. ''{repo_url:'' @ repo_url r @ ''}'') (\<lambda>u. True)
           \<lparr>window = None, process = None\<rparr>
           \<lparr>repo_url = ''https://github.com/o/r'', messages = [], filePath = None,
            token = None, type = None, provider = None, model = None, language = None,
            excluded_dirs = None, excluded_files = None\<rparr>
           (\<lambda>t. [t]) (\<lambda>e::unit. []) [] = Inr ws \<and>
         deliver ws [MessageEvent \<lparr>data = ''foo''\<rparr>, MessageEvent \<lparr>data = ''bar''\<rparr>]
           = [Caller ''foo'', Caller ''bar'']"
proof -
  let ?J = "\<lambda>r. ''{repo_url:'' @ repo_url r @ ''}''"
  let ?g = "\<lparr>window = None, process = None\<rparr>"
  let ?r = "\<lparr>repo_url = ''https://github.com/o/r'', messages = [], filePath = None,
            token = None, type = None, provider = None, model = None, language = None,
            excluded_dirs = None, excluded_files = None\<rparr>"
  obtain ws :: "(unit, string) websocket"
    where ws: "createChatWebSocket ?J (\<lambda>u. True) ?g ?r (\<lambda>t. [t]) (\<lambda>e::unit. []) [] = Inr ws"
    by (simp add: createChatWebSocket_def new_WebSocket_def)
  have "deliver ws [MessageEvent \<lparr>data = ''foo''\<rparr>, MessageEvent \<lparr>data = ''bar''\<rparr>]
          = [Caller ''foo'', Caller ''bar'']"
    using createChatWebSocket_forwards_messages [OF ws] by simp
  with ws show ?thesis by auto
qed

text \<open>
  Claim C7. \<open>closeWebSocket\<close> performs no action on an absent handle and on a handle
  whose state is not \<^verbatim>\<open>OPEN\<close> (connecting, closing or closed); it calls
  \<^verbatim>\<open>ws.close()\<close> exactly when the handle is present and open; and it never throws.
\<close>

theorem closeWebSocket_guard:
  "closeWebSocket (None :: ('ev, 'c) websocket option) = Inr [] \<and>
   (readyState h \<noteq> OPEN \<longrightarrow> closeWebSocket (Some h) = Inr []) \<and>
   (readyState h = OPEN \<longrightarrow> closeWebSocket (Some h) = Inr [WsClose]) \<and>
   (closeWebSocket ws = Inr [WsClose] \<longleftrightarrow> (\<exists>h'. ws = Some h' \<and> readyState h' = OPEN)) \<and>
   (\<forall>e. closeWebSocket ws \<noteq> Inl e)"
  for h :: "('ev, 'c) websocket" and ws :: "('ev, 'c) websocket option"
  by (cases ws) (auto simp add: closeWebSocket_def readyState_of_def ws_close_def)

theorem closeWebSocket_guard_witness:
  "closeWebSocket (None :: (unit, string) websocket option) = Inr [] \<and>
   closeWebSocket (Some \<lparr>url = ''ws://localhost:8001/ws/chat'', readyState = CONNECTING,
       onopen = [], onmessage = (\<lambda>_. []), onerror = (\<lambda>_::unit. []),
       onclose = ([] :: (unit, string) action list)\<rparr>) = Inr [] \<and>
   closeWebSocket (Some \<lparr>url = ''ws://localhost:8001/ws/chat'', readyState = CLOSED,
       onopen = [], onmessage = (\<lambda>_. []), onerror = (\<lambda>_::unit. []),
       onclose = ([] :: (unit, string) action list)\<rparr>) = Inr [] \<and>
   closeWebSocket (Some \<lparr>url = ''ws://localhost:8001/ws/chat'', readyState = OPEN,
       onopen = [], onmessage = (\<lambda>_. []), onerror = (\<lambda>_::unit. []),
       onclose = ([] :: (unit, string) action list)\<rparr>) = Inr [WsClose]"
  using closeWebSocket_guard [of "\<lparr>url = ''ws://localhost:8001/ws/chat'', readyState = CONNECTING,
       onopen = [], onmessage = (\<lambda>_. []), onerror = (\<lambda>_::unit. []),
       onclose = ([] :: (unit, string) action list)\<rparr>" None]
    closeWebSocket_guard [of "\<lparr>url = ''ws://localhost:8001/ws/chat'', readyState = CLOSED,
       onopen = [], onmessage = (\<lambda>_. []), onerror = (\<lambda>_::unit. []),
       onclose = ([] :: (unit, string) action list)\<rparr>" None]
    closeWebSocket_guard [of "\<lparr>url = ''ws://localhost:8001/ws/chat'', readyState = OPEN,
       onopen = [], onmessage = (\<lambda>_. []), onerror = (\<lambda>_::unit. []),
       onclose = ([] :: (unit, string) action list)\<rparr>" None]
  by simp

end
